theory Spec2Isabelle
  imports Main
begin

section \<open>The model resource handler of pages/api/models/index.ts\<close>

text \<open>
  The file holds one asynchronous request handler and three helpers
  (\<open>makeModelInfo\<close>, \<open>makeModelInfos\<close>, \<open>getFormidableFileFromReq\<close>).
  Everything else the handler touches is a collaborator imported from elsewhere:
  the database client, the authorization function, the storage client, the
  multipart parser and the upload helpers. The embedding keeps the handler's
  control flow as it is written and takes the collaborators as fields of an
  environment record. Every collaborator call that the handler awaits and that
  can throw returns \<open>error + result\<close>; the handler's own result is what it sent
  (or the error it let escape) together with the list of collaborator calls it
  made, in the order it made them.
\<close>

subsection \<open>JavaScript values the handler inspects\<close>

datatype error = Error string

text \<open>
  A value of \<open>req.query\<close> or of formidable's \<open>fields\<close>: a string, or an array of
  strings when the key is repeated. A missing key is \<open>None\<close> in the enclosing map.
\<close>

datatype query_value = Str string | Strs "string list"

text \<open>\<open>Array.prototype.join(",")\<close>, which is what \<open>toString\<close> of an array computes.\<close>

fun join_comma :: "string list \<Rightarrow> string" where
  "join_comma [] = []"
| "join_comma [s] = s"
| "join_comma (s # t # ss) = s @ '','' @ join_comma (t # ss)"

text \<open>
  String conversion of a query value, as \<open>.toString()\<close>, string concatenation and
  template literals perform it.
\<close>

fun toString :: "query_value \<Rightarrow> string" where
  "toString (Str s) = s"
| "toString (Strs ss) = join_comma ss"

text \<open>
  The value when the source's test \<open>if (v)\<close> succeeds: \<open>undefined\<close> and the empty
  string are falsy, every array (also the empty one) is truthy.
\<close>

fun truthy_of :: "query_value option \<Rightarrow> query_value option" where
  "truthy_of None = None"
| "truthy_of (Some (Str s)) = (if s = [] then None else Some (Str s))"
| "truthy_of (Some (Strs ss)) = Some (Strs ss)"

text \<open>Truthiness of a nullable string (\<open>model.thumbnail\<close>, \<open>model.modelUsdz\<close>).\<close>

fun truthy_string :: "string option \<Rightarrow> bool" where
  "truthy_string None = False"
| "truthy_string (Some s) = (s \<noteq> [])"

subsection \<open>Stored entities\<close>

text \<open>
  Modelled from the spec: the Prisma types \<open>Model\<close> and \<open>User\<close> (\<open>@prisma/client\<close>, the
  schema is not among the sources). The fields are the ones the handler and the
  spec name: identifier, name, category, uploader reference, the stored file
  names (thumbnail and USDZ variant nullable) and the creation time.
\<close>

record model =
  id_model :: string
  name :: string
  category :: string
  userId :: string
  modelFile :: string
  thumbnail :: "string option"
  modelUsdz :: "string option"
  createdAt :: nat

record user =
  id_user :: string
  email :: string
  role :: string

text \<open>\<open>ModelInfo\<close>: the stored record spread (\<open>...model\<close>) plus three derived URLs.\<close>

record model_info = model +
  modelSrc :: string
  thumbnailSrc :: string
  usdzSrc :: string

text \<open>
  Modelled from the spec: \<open>OptionalModel\<close> (\<open>@customTypes/model\<close>), the partial draft
  the upload path fills in; every field may be unset.
\<close>

record optional_model =
  userId_draft :: "string option"
  category_draft :: "string option"
  name_draft :: "string option"
  modelFile_draft :: "string option"
  thumbnail_draft :: "string option"
  modelUsdz_draft :: "string option"

definition empty_draft :: optional_model where
  "empty_draft = \<lparr>userId_draft = None, category_draft = None, name_draft = None,
     modelFile_draft = None, thumbnail_draft = None, modelUsdz_draft = None\<rparr>"

text \<open>The session of next-auth: \<open>session.user?.email\<close> may be missing at either level.\<close>

record session_user =
  session_email :: "string option"

record session =
  session_user :: "session_user option"

subsection \<open>Requests, uploads and responses\<close>

record request =
  method_req :: "string option"
  query :: "string \<Rightarrow> query_value option"
  raw_body :: string

text \<open>One uploaded part as formidable hands it over (\<open>formidable.File\<close>).\<close>

record upload_file =
  originalFilename :: string
  filepath :: string
  size_bytes :: nat

datatype 'a maybe_array = Single 'a | Many "'a list"

datatype size_limit = Infinity | Bytes nat

record formidable_options =
  multiples :: bool
  maxFileSize :: size_limit
  keepExtensions :: bool

text \<open>
  \<open>FormidableResult\<close> with its members \<open>fields\<close> and \<open>files\<close>; the member \<open>err\<close> is
  left out, being always the falsy error of a successful parse.
\<close>

record formidable_result =
  fields_form :: "string \<Rightarrow> query_value option"
  files_form :: "string \<Rightarrow> upload_file maybe_array option"

text \<open>An entry of \<open>Promise.allSettled\<close>.\<close>

datatype 'v settled = Fulfilled 'v | Rejected error

text \<open>The \<open>data\<close> member of the sort branch: the stored rows on 404, the shaped ones on 200.\<close>

datatype listing = Stored "model list" | Shaped "model_info list"

datatype 'v body =
    NoBody
  | Text string
  | JsonModelInfos "model_info list"
  | JsonDataError listing "string option"
  | JsonOkMessage bool string
  | JsonError string
  | JsonResults "'v settled list"

record 'v response =
  status :: nat
  body :: "'v body"

text \<open>
  What one run of the handler ends with: a response sent, an error that escapes the
  handler (its promise rejects), or a return without any response.
\<close>

datatype 'v outcome = Responded "'v response" | Unhandled error | NoResponse

subsection \<open>Collaborators\<close>

text \<open>
  The argument objects the handler builds for \<open>prismaClient.model.findMany\<close>: the keys
  of \<open>where\<close> (all of which must hold) and the single \<open>orderBy\<close> entry, a field name
  with the direction as it came from the query string.
\<close>

datatype where_model =
    Uploader_id string
  | OR "where_model list"
  | Name_contains "string option"
  | Category string

record findMany_args =
  where_keys :: "where_model list"
  orderBy :: "(string \<times> query_value option) option"

record prisma =
  user_findUnique :: "string option \<Rightarrow> error + user option"
  model_findUnique :: "query_value \<Rightarrow> error + model option"
  model_findMany :: "findMany_args \<Rightarrow> error + model list"
  model_delete :: "string \<Rightarrow> error + unit"

datatype action = Action string string

text \<open>The optional third argument of \<open>hasRight\<close>: left out, or the fetched record (maybe null).\<close>

datatype target = NoTarget | Target "model option"

text \<open>
  The environment of one request. \<open>deleteS3Files\<close> either throws at the call or
  returns a promise, whose later outcome is the inner value; \<open>formidable_parse\<close> is
  the library's \<open>form.parse\<close> with the error of its callback as \<open>Inl\<close>; \<open>handlePOST\<close>
  gives the settled outcome of the promise it returns. \<open>JSON_parse\<close> and
  \<open>toUpperCase\<close> are the runtime's \<open>JSON.parse\<close> and \<open>String.prototype.toUpperCase\<close>.
  The type of the parsed upload form and of a fulfilled upload are left open.
\<close>

record ('form, 'v) env =
  prismaClient :: prisma
  hasRight :: "action \<Rightarrow> user option \<Rightarrow> target \<Rightarrow> bool"
  Categories :: "string list"
  deleteS3Files :: "string \<Rightarrow> error + unit settled"
  formidable_parse :: "formidable_options \<Rightarrow> string \<Rightarrow> error + formidable_result"
  JSON_parse :: "string \<Rightarrow> error + 'form"
  toUpperCase :: "string \<Rightarrow> string"
  getModelFromForm :: "'form \<Rightarrow> optional_model"
  updateModel :: "optional_model \<Rightarrow> optional_model \<Rightarrow> optional_model"
  handlePOST :: "upload_file \<Rightarrow> optional_model \<Rightarrow> 'v settled"

datatype call =
    User_findUnique "string option"
  | Model_findUnique query_value
  | Model_findMany findMany_args
  | Model_delete string
  | DeleteS3Files string
  | Form_parse formidable_options
  | HandlePOST upload_file optional_model

text \<open>The calls that change the database or the object storage.\<close>

fun is_write :: "call \<Rightarrow> bool" where
  "is_write (Model_delete _) = True"
| "is_write (DeleteS3Files _) = True"
| "is_write (HandlePOST _ _) = True"
| "is_write _ = False"

type_synonym 'v result = "'v outcome \<times> call list"

text \<open>
  Modelled from the spec: \<open>makeMaybeArrayToArray\<close> (\<open>@libs/server/ServerFileHandling\<close>),
  which normalises the files field, a single file or a list, into a list of zero or
  more files.
\<close>

fun makeMaybeArrayToArray :: "'a maybe_array option \<Rightarrow> 'a list" where
  "makeMaybeArrayToArray None = []"
| "makeMaybeArrayToArray (Some (Single x)) = [x]"
| "makeMaybeArrayToArray (Some (Many xs)) = xs"

subsection \<open>Response shaping\<close>

definition resource_path :: "string \<Rightarrow> string \<Rightarrow> string" where
  "resource_path i f = ''/getResource/models/'' @ i @ ''/'' @ f"

definition makeModelInfo :: "model \<Rightarrow> model_info" where
  "makeModelInfo m =
     (let thumbnailSrc' = (if truthy_string (thumbnail m)
                           then resource_path (id_model m) (case thumbnail m of Some t \<Rightarrow> t | None \<Rightarrow> [])
                           else []);
          usdzSrc' = (if truthy_string (modelUsdz m)
                      then resource_path (id_model m) (case modelUsdz m of Some u \<Rightarrow> u | None \<Rightarrow> [])
                      else [])
      in \<lparr>id_model = id_model m, name = name m, category = category m, userId = userId m,
          modelFile = modelFile m, thumbnail = thumbnail m, modelUsdz = modelUsdz m,
          createdAt = createdAt m,
          modelSrc = resource_path (id_model m) (modelFile m),
          thumbnailSrc = thumbnailSrc', usdzSrc = usdzSrc'\<rparr>)"

definition makeModelInfos :: "model list \<Rightarrow> model_info list" where
  "makeModelInfos models = map (\<lambda>m. makeModelInfo m) models"

subsection \<open>The handler\<close>

definition allowedMethod :: "string list" where
  "allowedMethod = [''GET'', ''POST'', ''DELETE'']"

text \<open>GET with a truthy \<open>query.id\<close> (lines 42 to 51).\<close>

definition get_by_id :: "('form, 'v) env \<Rightarrow> query_value \<Rightarrow> 'v result" where
  "get_by_id env idv =
     (case model_findUnique (prismaClient env) idv of
        Inl e \<Rightarrow> (Unhandled e, [Model_findUnique idv])
      | Inr None \<Rightarrow> (Responded \<lparr>status = 404, body = NoBody\<rparr>, [Model_findUnique idv])
      | Inr (Some m) \<Rightarrow>
          (Responded \<lparr>status = 200, body = JsonModelInfos [makeModelInfo m]\<rparr>,
           [Model_findUnique idv]))"

text \<open>GET with a truthy \<open>query.uploader\<close> (lines 52 to 71).\<close>

definition uploaders_of :: "query_value \<Rightarrow> string list" where
  "uploaders_of u = (case u of Str s \<Rightarrow> [s] | Strs ss \<Rightarrow> ss)"

definition uploader_args :: "query_value \<Rightarrow> findMany_args" where
  "uploader_args u =
     (let querys = map (\<lambda>uploaderId. Uploader_id uploaderId) (uploaders_of u)
      in \<lparr>where_keys = [OR querys], orderBy = None\<rparr>)"

definition get_by_uploader :: "('form, 'v) env \<Rightarrow> query_value \<Rightarrow> 'v result" where
  "get_by_uploader env u =
     (case model_findMany (prismaClient env) (uploader_args u) of
        Inl e \<Rightarrow> (Unhandled e, [Model_findMany (uploader_args u)])
      | Inr ms \<Rightarrow>
          (Responded \<lparr>status = 200, body = JsonModelInfos (makeModelInfos ms)\<rparr>,
           [Model_findMany (uploader_args u)]))"

text \<open>GET with a truthy \<open>query.sort\<close> (lines 72 to 126).\<close>

definition sort_options :: "('form, 'v) env \<Rightarrow> request \<Rightarrow> query_value \<Rightarrow> findMany_args" where
  "sort_options env req sort_q =
     (let category_q = query req ''category'';
          filterByName = query req ''filterByName'';
          name_key = Name_contains (map_option toString filterByName)
      in \<lparr>where_keys =
            (case truthy_of category_q of
               None \<Rightarrow> [name_key]
             | Some c \<Rightarrow>
                 if toString c \<in> set (Categories env)
                 then [name_key, Category (toUpperCase env (toString c))]
                 else [name_key]),
          orderBy = Some (toString sort_q, query req ''orderBy'')\<rparr>)"

definition no_match_message :: "request \<Rightarrow> string option" where
  "no_match_message req =
     (case truthy_of (query req ''filterByName'') of
        Some f \<Rightarrow>
          (case truthy_of (query req ''category'') of
             Some c \<Rightarrow>
               Some (''We couldn't find any matches for \"'' @ toString f @ ''\" '' @ ''in ''
                     @ toString c)
           | None \<Rightarrow> Some (''We couldn't find any matches for \"'' @ toString f @ ''\"''))
      | None \<Rightarrow>
          (case truthy_of (query req ''category'') of
             Some c \<Rightarrow> Some (''We couldn't find any matches in \"'' @ toString c @ ''\"'')
           | None \<Rightarrow> None))"

definition get_by_sort :: "('form, 'v) env \<Rightarrow> request \<Rightarrow> query_value \<Rightarrow> 'v result" where
  "get_by_sort env req sort_q =
     (let options = sort_options env req sort_q in
      case model_findMany (prismaClient env) options of
        Inl e \<Rightarrow> (Unhandled e, [Model_findMany options])
      | Inr modelList \<Rightarrow>
          if length modelList = 0
          then (Responded \<lparr>status = 404,
                  body = JsonDataError (Stored modelList) (no_match_message req)\<rparr>,
                [Model_findMany options])
          else (Responded \<lparr>status = 200,
                  body = JsonDataError (Shaped (makeModelInfos modelList)) None\<rparr>,
                [Model_findMany options]))"

text \<open>GET without any of the three keys (lines 127 to 133).\<close>

definition default_args :: findMany_args where
  "default_args = \<lparr>where_keys = [], orderBy = Some (''createdAt'', Some (Str ''desc''))\<rparr>"

definition get_default :: "('form, 'v) env \<Rightarrow> 'v result" where
  "get_default env =
     (case model_findMany (prismaClient env) default_args of
        Inl e \<Rightarrow> (Unhandled e, [Model_findMany default_args])
      | Inr modelList \<Rightarrow>
          (Responded \<lparr>status = 200, body = JsonModelInfos (makeModelInfos modelList)\<rparr>,
           [Model_findMany default_args]))"

definition handle_GET :: "('form, 'v) env \<Rightarrow> request \<Rightarrow> 'v result" where
  "handle_GET env req =
     (case truthy_of (query req ''id'') of
        Some idv \<Rightarrow> get_by_id env idv
      | None \<Rightarrow>
          (case truthy_of (query req ''uploader'') of
             Some u \<Rightarrow> get_by_uploader env u
           | None \<Rightarrow>
               (case truthy_of (query req ''sort'') of
                  Some sort_q \<Rightarrow> get_by_sort env req sort_q
                | None \<Rightarrow> get_default env)))"

text \<open>
  \<open>getFormidableFileFromReq\<close> (lines 262 to 279): the promise rejects with the error
  of the parse callback and resolves with the parsed fields and files otherwise.
  \<open>100 << 20\<close> is 104857600.
\<close>

definition default_formidable_options :: formidable_options where
  "default_formidable_options =
     \<lparr>multiples = True, maxFileSize = Bytes (100 * 2 ^ 20), keepExtensions = True\<rparr>"

definition effective_options :: "formidable_options option \<Rightarrow> formidable_options" where
  "effective_options options =
     (case options of Some opts \<Rightarrow> opts | None \<Rightarrow> default_formidable_options)"

definition getFormidableFileFromReq ::
  "('form, 'v) env \<Rightarrow> request \<Rightarrow> formidable_options option \<Rightarrow> error + formidable_result" where
  "getFormidableFileFromReq env req options =
     (case formidable_parse env (effective_options options) (raw_body req) of
        Inl err \<Rightarrow> Inl err
      | Inr parsed \<Rightarrow> Inr parsed)"

text \<open>The message of the 403 answer of POST, as the bytes of its UTF-8 encoding.\<close>

definition login_required_message :: string where
  "login_required_message =
     [CHR 0xEB, CHR 0xA1, CHR 0x9C, CHR 0xEA, CHR 0xB7, CHR 0xB8, CHR 0xEC, CHR 0x9D,
      CHR 0xB8, CHR 0xEC, CHR 0x9D, CHR 0xB4, CHR 0x20, CHR 0xED, CHR 0x95, CHR 0x84,
      CHR 0xEC, CHR 0x9A, CHR 0x94, CHR 0xED, CHR 0x95, CHR 0xA9, CHR 0xEB, CHR 0x8B,
      CHR 0x88, CHR 0xEB, CHR 0x8B, CHR 0xA4, CHR 0x2E]"

text \<open>\<open>session?.user?.email ?? undefined\<close>.\<close>

definition email_of_session :: "session option \<Rightarrow> string option" where
  "email_of_session s =
     (case s of
        None \<Rightarrow> None
      | Some ses \<Rightarrow> (case session_user ses of None \<Rightarrow> None | Some su \<Rightarrow> session_email su))"

definition upload_options :: "user \<Rightarrow> formidable_options option" where
  "upload_options u =
     (let isAdminOrDev = (role u = ''ADMIN'' \<or> role u = ''DEVELOPER'')
      in if isAdminOrDev
         then Some \<lparr>multiples = True, maxFileSize = Infinity, keepExtensions = True\<rparr>
         else None)"

text \<open>
  Lines 179 to 187: the draft stamped with the uploader, then either merged with the
  parsed \<open>form\<close> field or given the category MISC. \<open>JSON.parse\<close> throws on text that
  is not JSON, and nothing around it catches.
\<close>

definition build_draft ::
  "('form, 'v) env \<Rightarrow> user \<Rightarrow> formidable_result \<Rightarrow> error + optional_model" where
  "build_draft env u formidable =
     (let draft = empty_draft\<lparr>userId_draft := Some (id_user u)\<rparr> in
      case truthy_of (fields_form formidable ''form'') of
        Some fv \<Rightarrow>
          (case JSON_parse env (toString fv) of
             Inl e \<Rightarrow> Inl e
           | Inr form \<Rightarrow> Inr (updateModel env draft (getModelFromForm env form)))
      | None \<Rightarrow> Inr (draft\<lparr>category_draft := Some ''MISC''\<rparr>))"

text \<open>
  Lines 188 to 192: one \<open>handlePOST\<close> call per file, in the order of the list, and the
  settled outcomes collected in the same order.
\<close>

definition process_files ::
  "('form, 'v) env \<Rightarrow> upload_file list \<Rightarrow> optional_model \<Rightarrow> 'v settled list \<times> call list" where
  "process_files env fs draft =
     (map (\<lambda>f. handlePOST env f draft) fs, map (\<lambda>f. HandlePOST f draft) fs)"

definition handle_POST :: "('form, 'v) env \<Rightarrow> session option \<Rightarrow> request \<Rightarrow> 'v result" where
  "handle_POST env ses req =
     (let isLogined = (ses \<noteq> None) in
      if \<not> isLogined
      then (Responded \<lparr>status = 401, body = Text ''Login first''\<rparr>, [])
      else
        (let mail = email_of_session ses; c1 = [User_findUnique mail] in
         (case user_findUnique (prismaClient env) mail of
            Inl e \<Rightarrow> (Unhandled e, c1)
          | Inr None \<Rightarrow> (Responded \<lparr>status = 401, body = NoBody\<rparr>, c1)
          | Inr (Some u) \<Rightarrow>
              if \<not> hasRight env (Action ''model'' ''create'') (Some u) NoTarget
              then (Responded
                      \<lparr>status = 403, body = JsonOkMessage False login_required_message\<rparr>, c1)
              else
                (let option = upload_options u;
                     c2 = c1 @ [Form_parse (effective_options option)] in
                 (case getFormidableFileFromReq env req option of
                    Inl e \<Rightarrow>
                      (Responded \<lparr>status = 200,
                         body = JsonOkMessage False
                           ''Failed to parse your request. Check your model size.''\<rparr>, c2)
                  | Inr formidable \<Rightarrow>
                      (case build_draft env u formidable of
                         Inl e \<Rightarrow> (Unhandled e, c2)
                       | Inr draft \<Rightarrow>
                           (let fs = makeMaybeArrayToArray (files_form formidable ''file'');
                                (results, c3) = process_files env fs draft
                            in (Responded \<lparr>status = 200, body = JsonResults results\<rparr>,
                                c2 @ c3))))))))"

text \<open>
  DELETE (lines 194 to 236). \<open>modelId\<close> is the first element when \<open>query.id\<close> is an
  array; \<open>undefined\<close> and the empty string fail the test \<open>!modelId\<close>.
\<close>

definition modelId_of :: "request \<Rightarrow> string option" where
  "modelId_of req =
     (case query req ''id'' of
        None \<Rightarrow> None
      | Some (Str s) \<Rightarrow> if s = [] then None else Some s
      | Some (Strs ss) \<Rightarrow>
          (case ss of [] \<Rightarrow> None | s # _ \<Rightarrow> if s = [] then None else Some s))"

definition delete_failed :: "'v response" where
  "delete_failed = \<lparr>status = 500, body = JsonOkMessage False ''Failed while deleting.''\<rparr>"

definition delete_model :: "('form, 'v) env \<Rightarrow> string \<Rightarrow> 'v result" where
  "delete_model env modelId =
     (case deleteS3Files env modelId of
        Inl e \<Rightarrow> (Responded delete_failed, [DeleteS3Files modelId])
      | Inr pending \<Rightarrow>
          (case model_delete (prismaClient env) modelId of
             Inl e \<Rightarrow> (Responded delete_failed, [DeleteS3Files modelId, Model_delete modelId])
           | Inr _ \<Rightarrow>
               (Responded \<lparr>status = 200, body = JsonOkMessage True ''delete success!''\<rparr>,
                [DeleteS3Files modelId, Model_delete modelId])))"

definition handle_DELETE :: "('form, 'v) env \<Rightarrow> session option \<Rightarrow> request \<Rightarrow> 'v result" where
  "handle_DELETE env ses req =
     (let mail = email_of_session ses; c1 = [User_findUnique mail] in
      (case user_findUnique (prismaClient env) mail of
         Inl e \<Rightarrow> (Unhandled e, c1)
       | Inr usr \<Rightarrow>
           (case modelId_of req of
              None \<Rightarrow>
                (Responded \<lparr>status = 400, body = JsonError ''model id query not found''\<rparr>, c1)
            | Some modelId \<Rightarrow>
                (let c2 = c1 @ [Model_findUnique (Str modelId)] in
                 (case model_findUnique (prismaClient env) (Str modelId) of
                    Inl e \<Rightarrow> (Unhandled e, c2)
                  | Inr mdl \<Rightarrow>
                      if \<not> hasRight env (Action ''model'' ''delete'') usr (Target mdl)
                      then (Responded \<lparr>status = 403, body = NoBody\<rparr>, c2)
                      else (let (out, c3) = delete_model env modelId in (out, c2 @ c3)))))))"

text \<open>
  The handler itself; \<open>ses\<close> is the value of \<open>await getSession({ req })\<close>, and
  \<open>req.method ?? ""\<close> is compared with the allowed methods.
\<close>

definition handler :: "('form, 'v) env \<Rightarrow> session option \<Rightarrow> request \<Rightarrow> 'v result" where
  "handler env ses req =
     (let m = (case method_req req of Some s \<Rightarrow> s | None \<Rightarrow> []) in
      if m \<notin> set allowedMethod
      then (Responded \<lparr>status = 405, body = NoBody\<rparr>, [])
      else if method_req req = Some ''GET'' then handle_GET env req
      else if method_req req = Some ''POST'' then handle_POST env ses req
      else if method_req req = Some ''DELETE'' then handle_DELETE env ses req
      else (NoResponse, []))"

subsection \<open>An in-memory database client\<close>

text \<open>
  Modelled from the spec: \<open>prismaClient\<close> (\<open>@libs/server/prismaClient\<close>) over a database
  given as the list of its rows: unique-find, many-find with \<open>where\<close> and \<open>orderBy\<close>,
  and delete. Where the spec is silent the client follows the source and the
  library: a lookup with an undefined email searches nothing, as the comment in the
  handler says; a unique-find whose id is not a string is refused, as Prisma
  validates its arguments; a delete of a missing row fails. What depends on the
  database engine, the substring match of \<open>contains\<close> and the ordering of rows, is
  taken from the record \<open>engine\<close>.
\<close>

record engine =
  name_matches :: "string \<Rightarrow> string \<Rightarrow> bool"
  order_rows :: "string \<times> query_value option \<Rightarrow> model list \<Rightarrow> error + model list"

fun where_matches :: "engine \<Rightarrow> where_model \<Rightarrow> model \<Rightarrow> bool" where
  "where_matches g (Uploader_id u) m = (userId m = u)"
| "where_matches g (OR ws) m = list_ex (\<lambda>w. where_matches g w m) ws"
| "where_matches g (Name_contains None) m = True"
| "where_matches g (Name_contains (Some s)) m = name_matches g (name m) s"
| "where_matches g (Category c) m = (category m = c)"

definition mem_findMany :: "engine \<Rightarrow> model list \<Rightarrow> findMany_args \<Rightarrow> error + model list" where
  "mem_findMany g db args =
     (let rows = filter (\<lambda>m. list_all (\<lambda>w. where_matches g w m) (where_keys args)) db in
      case orderBy args of None \<Rightarrow> Inr rows | Some ob \<Rightarrow> order_rows g ob rows)"

definition mem_model_findUnique :: "model list \<Rightarrow> query_value \<Rightarrow> error + model option" where
  "mem_model_findUnique db v =
     (case v of
        Str s \<Rightarrow> Inr (find (\<lambda>m. id_model m = s) db)
      | Strs ss \<Rightarrow> Inl (Error ''PrismaClientValidationError''))"

definition mem_user_findUnique :: "user list \<Rightarrow> string option \<Rightarrow> error + user option" where
  "mem_user_findUnique us mail =
     (case mail of None \<Rightarrow> Inr None | Some e \<Rightarrow> Inr (find (\<lambda>u. email u = e) us))"

definition mem_model_delete :: "model list \<Rightarrow> string \<Rightarrow> error + unit" where
  "mem_model_delete db i =
     (if list_ex (\<lambda>m. id_model m = i) db then Inr ()
      else Inl (Error ''RecordNotFound''))"

definition mem_prisma :: "engine \<Rightarrow> user list \<Rightarrow> model list \<Rightarrow> prisma" where
  "mem_prisma g us db =
     \<lparr>user_findUnique = mem_user_findUnique us,
      model_findUnique = mem_model_findUnique db,
      model_findMany = mem_findMany g db,
      model_delete = mem_model_delete db\<rparr>"

subsection \<open>A concrete scenario\<close>

text \<open>
  A small database, three users and an environment built on the in-memory client,
  used to run the handler on concrete requests. The engine matches names by
  substring and leaves the order of the rows alone.
\<close>

fun starts_with :: "string \<Rightarrow> string \<Rightarrow> bool" where
  "starts_with s [] = True"
| "starts_with [] (p # ps) = False"
| "starts_with (c # s) (p # ps) = (c = p \<and> starts_with s ps)"

fun includes_string :: "string \<Rightarrow> string \<Rightarrow> bool" where
  "includes_string [] p = (p = [])"
| "includes_string (c # s) p = (starts_with (c # s) p \<or> includes_string s p)"

text \<open>Upper-casing of the letters a to z, which is all the scenario's categories hold.\<close>

definition upper_char :: "char \<Rightarrow> char" where
  "upper_char c =
     (let n = of_char c :: nat in if 97 \<le> n \<and> n \<le> 122 then char_of (n - 32) else c)"

definition toUpperCase_ascii :: "string \<Rightarrow> string" where
  "toUpperCase_ascii s = map upper_char s"

definition demo_engine :: engine where
  "demo_engine = \<lparr>name_matches = includes_string, order_rows = (\<lambda>ob rows. Inr rows)\<rparr>"

definition ann :: user where
  "ann = \<lparr>id_user = ''u1'', email = ''ann@example.org'', role = ''ADMIN''\<rparr>"

definition bob :: user where
  "bob = \<lparr>id_user = ''u2'', email = ''bob@example.org'', role = ''USER''\<rparr>"

definition carl :: user where
  "carl = \<lparr>id_user = ''u3'', email = ''carl@example.org'', role = ''GUEST''\<rparr>"

definition teapot :: model where
  "teapot = \<lparr>id_model = ''42'', name = ''teapot'', category = ''MISC'', userId = ''u1'',
     modelFile = ''teapot.glb'', thumbnail = Some ''t.png'', modelUsdz = None, createdAt = 1\<rparr>"

definition chair :: model where
  "chair = \<lparr>id_model = ''43'', name = ''chair'', category = ''FURNITURE'', userId = ''u2'',
     modelFile = ''chair.glb'', thumbnail = None, modelUsdz = Some ''chair.usdz'',
     createdAt = 2\<rparr>"

definition lamp :: model where
  "lamp = \<lparr>id_model = ''44'', name = ''lamp'', category = ''MISC'', userId = ''u3'',
     modelFile = ''lamp.glb'', thumbnail = Some [], modelUsdz = None, createdAt = 3\<rparr>"

definition file_a :: upload_file where
  "file_a = \<lparr>originalFilename = ''a.glb'', filepath = ''/tmp/a'', size_bytes = 10\<rparr>"

definition file_b :: upload_file where
  "file_b = \<lparr>originalFilename = ''b.glb'', filepath = ''/tmp/b'', size_bytes = 0\<rparr>"

definition two_files :: formidable_result where
  "two_files = \<lparr>fields_form = Map.empty, files_form = [''file'' \<mapsto> Many [file_a, file_b]]\<rparr>"

definition two_files_with_form :: formidable_result where
  "two_files_with_form =
     \<lparr>fields_form = [''form'' \<mapsto> Str ''{\"name\":\"kettle\"}''],
      files_form = [''file'' \<mapsto> Many [file_a, file_b]]\<rparr>"

definition two_files_broken_form :: formidable_result where
  "two_files_broken_form =
     \<lparr>fields_form = [''form'' \<mapsto> Str ''{''],
      files_form = [''file'' \<mapsto> Many [file_a, file_b]]\<rparr>"

text \<open>
  The multipart parser of the scenario knows four bodies: two files without a form
  field, two files with a form field that is JSON, two files with the form field
  \<open>{\<close>, and anything else, which it refuses.
\<close>

definition demo_parse :: "formidable_options \<Rightarrow> string \<Rightarrow> error + formidable_result" where
  "demo_parse opts b =
     (if b = ''two files'' then Inr two_files
      else if b = ''two files and a form'' then Inr two_files_with_form
      else if b = ''two files and a broken form'' then Inr two_files_broken_form
      else Inl (Error ''maxFileSize exceeded''))"

text \<open>
  Guests may not create; a model may be deleted by an administrator or its uploader.
  The storage deletion returns a promise that rejects later. An upload of an empty
  file is rejected, any other is fulfilled with the file's name. \<open>JSON.parse\<close>
  accepts the one well-formed form of the scenario and throws on everything else it
  sends.
\<close>

definition demo_hasRight :: "action \<Rightarrow> user option \<Rightarrow> target \<Rightarrow> bool" where
  "demo_hasRight a usr t =
     (case usr of
        None \<Rightarrow> False
      | Some u \<Rightarrow>
          (case t of
             NoTarget \<Rightarrow> role u \<noteq> ''GUEST''
           | Target None \<Rightarrow> False
           | Target (Some m) \<Rightarrow> role u = ''ADMIN'' \<or> userId m = id_user u))"

definition demo_env :: "(optional_model, string) env" where
  "demo_env =
     \<lparr>prismaClient = mem_prisma demo_engine [ann, bob, carl] [teapot, chair, lamp],
      hasRight = demo_hasRight,
      Categories = [''misc'', ''furniture''],
      deleteS3Files = (\<lambda>i. Inr (Rejected (Error ''storage unreachable''))),
      formidable_parse = demo_parse,
      JSON_parse = (\<lambda>s. if s = ''{\"name\":\"kettle\"}''
                         then Inr (empty_draft\<lparr>name_draft := Some ''kettle''\<rparr>)
                         else Inl (Error ''SyntaxError'')),
      toUpperCase = toUpperCase_ascii,
      getModelFromForm = (\<lambda>form. form),
      updateModel = (\<lambda>draft part. draft\<lparr>name_draft := name_draft part,
                                          category_draft := category_draft part\<rparr>),
      handlePOST = (\<lambda>f draft. if size_bytes f = 0 then Rejected (Error ''empty file'')
                               else Fulfilled (originalFilename f))\<rparr>"

definition session_of :: "string \<Rightarrow> session" where
  "session_of mail = \<lparr>session_user = Some \<lparr>session_email = Some mail\<rparr>\<rparr>"

definition request_of :: "string \<Rightarrow> (string \<Rightarrow> query_value option) \<Rightarrow> string \<Rightarrow> request" where
  "request_of m q b = \<lparr>method_req = Some m, query = q, raw_body = b\<rparr>"


definition zzz_query :: "string \<Rightarrow> query_value option" where
  "zzz_query = [''sort'' \<mapsto> Str ''name'', ''orderBy'' \<mapsto> Str ''asc'',
                ''filterByName'' \<mapsto> Str ''zzz'']"

section \<open>Properties\<close>

subsection \<open>Dispatch\<close>

lemma handler_GET:
  "method_req req = Some ''GET'' \<Longrightarrow> handler env ses req = handle_GET env req"
  by (simp add: handler_def allowedMethod_def)

lemma handler_POST:
  "method_req req = Some ''POST'' \<Longrightarrow> handler env ses req = handle_POST env ses req"
  by (simp add: handler_def allowedMethod_def)

lemma handler_DELETE:
  "method_req req = Some ''DELETE'' \<Longrightarrow> handler env ses req = handle_DELETE env ses req"
  by (simp add: handler_def allowedMethod_def)

lemmas demo_defs = demo_env_def mem_prisma_def mem_model_findUnique_def
  mem_user_findUnique_def mem_model_delete_def demo_hasRight_def request_of_def
  session_of_def email_of_session_def ann_def bob_def carl_def teapot_def chair_def lamp_def

subsection \<open>Response shaping\<close>

text \<open>
  C4. \<open>makeModelInfo\<close> is a function of the stored model alone. \<open>modelSrc\<close> is
  \<open>/getResource/models/{id}/{modelFile}\<close>; \<open>thumbnailSrc\<close> and \<open>usdzSrc\<close> are the same
  template over the thumbnail and the USDZ file name when that name is present (not
  null and not the empty string, which is how the source tests it) and the empty
  string otherwise; the stored fields are carried over unchanged; and
  \<open>makeModelInfos\<close> applies the same function to every element of a list.
\<close>

theorem makeModelInfo_urls:
  "modelSrc (makeModelInfo m) = ''/getResource/models/'' @ id_model m @ ''/'' @ modelFile m
   \<and> thumbnailSrc (makeModelInfo m) =
       (case thumbnail m of
          None \<Rightarrow> []
        | Some t \<Rightarrow> if t = [] then [] else ''/getResource/models/'' @ id_model m @ ''/'' @ t)
   \<and> usdzSrc (makeModelInfo m) =
       (case modelUsdz m of
          None \<Rightarrow> []
        | Some u \<Rightarrow> if u = [] then [] else ''/getResource/models/'' @ id_model m @ ''/'' @ u)
   \<and> model.truncate (makeModelInfo m) = m
   \<and> makeModelInfos ms = map makeModelInfo ms"
  by (simp add: makeModelInfo_def makeModelInfos_def resource_path_def Let_def
      model.truncate_def split: option.splits)

theorem makeModelInfo_urls_witness:
  "modelSrc (makeModelInfo teapot) = ''/getResource/models/42/teapot.glb''
   \<and> thumbnailSrc (makeModelInfo teapot) = ''/getResource/models/42/t.png''
   \<and> usdzSrc (makeModelInfo teapot) = []
   \<and> thumbnailSrc (makeModelInfo chair) = []
   \<and> usdzSrc (makeModelInfo chair) = ''/getResource/models/43/chair.usdz''
   \<and> thumbnailSrc (makeModelInfo lamp) = []
   \<and> makeModelInfos [teapot, chair] = [makeModelInfo teapot, makeModelInfo chair]"
  using makeModelInfo_urls [of teapot "[teapot, chair]"] makeModelInfo_urls [of chair "[]"]
    makeModelInfo_urls [of lamp "[]"]
  by (simp add: teapot_def chair_def lamp_def)

subsection \<open>The read path\<close>

text \<open>
  C10. On a GET request the result of the handler, that is the response and the
  collaborator calls, is the same whatever the session is: the session is resolved
  and never read.
\<close>

theorem get_ignores_session:
  "method_req req = Some ''GET'' \<Longrightarrow> handler env ses1 req = handler env ses2 req"
  by (simp add: handler_GET)

theorem get_ignores_session_witness:
  "method_req (request_of ''GET'' [''uploader'' \<mapsto> Str ''u1''] []) = Some ''GET''
   \<and> handler demo_env (Some (session_of ''ann@example.org''))
         (request_of ''GET'' [''uploader'' \<mapsto> Str ''u1''] [])
       = handler demo_env None (request_of ''GET'' [''uploader'' \<mapsto> Str ''u1''] [])"
proof -
  have h: "method_req (request_of ''GET'' [''uploader'' \<mapsto> Str ''u1''] []) = Some ''GET''"
    by (simp add: request_of_def)
  from get_ignores_session [OF h, of demo_env "Some (session_of ''ann@example.org'')" None] h
  show ?thesis by simp
qed

text \<open>
  For an id that is a single non-empty string the by-id branch, run against the
  in-memory client, answers 404 with an empty body when no row has that id and 200
  with the one-element list of the shaped row otherwise, after exactly one
  unique-find.
\<close>

lemma get_by_id_string:
  assumes "method_req req = Some ''GET''"
    and "query req ''id'' = Some (Str s)"
    and "s \<noteq> []"
    and "prismaClient env = mem_prisma g us db"
  shows "handler env ses req =
           (case find (\<lambda>m. id_model m = s) db of
              None \<Rightarrow> (Responded \<lparr>status = 404, body = NoBody\<rparr>, [Model_findUnique (Str s)])
            | Some m \<Rightarrow>
                (Responded \<lparr>status = 200, body = JsonModelInfos [makeModelInfo m]\<rparr>,
                 [Model_findUnique (Str s)]))"
  using assms
  by (simp add: handler_GET handle_GET_def get_by_id_def mem_prisma_def
      mem_model_findUnique_def split: option.splits)

text \<open>
  C8. The claim is for every GET request with \<open>query.id\<close> present, and it fails when
  the key is repeated. \<open>query.id\<close> is then an array, which is truthy; the cast at line
  44 leaves it an array; the unique-find is called with it and refuses it; the error
  escapes the handler. The response is neither 404 nor a one-element list, whatever
  the rows are. The DELETE path (lines 199 to 201) takes the first element of such an
  array before it looks the record up.
\<close>

theorem get_by_id_array_unhandled:
  assumes "method_req req = Some ''GET''"
    and "query req ''id'' = Some (Strs ss)"
    and "prismaClient env = mem_prisma g us db"
  shows "handler env ses req =
           (Unhandled (Error ''PrismaClientValidationError''), [Model_findUnique (Strs ss)])"
  using assms
  by (simp add: handler_GET handle_GET_def get_by_id_def mem_prisma_def
      mem_model_findUnique_def)

theorem get_by_id_array_unhandled_witness:
  "method_req (request_of ''GET'' [''id'' \<mapsto> Strs [''42'', ''43'']] []) = Some ''GET''
   \<and> query (request_of ''GET'' [''id'' \<mapsto> Strs [''42'', ''43'']] []) ''id''
       = Some (Strs [''42'', ''43''])
   \<and> prismaClient demo_env = mem_prisma demo_engine [ann, bob, carl] [teapot, chair, lamp]
   \<and> handler demo_env None (request_of ''GET'' [''id'' \<mapsto> Strs [''42'', ''43'']] [])
       = (Unhandled (Error ''PrismaClientValidationError''),
          [Model_findUnique (Strs [''42'', ''43''])])"
proof -
  let ?req = "request_of ''GET'' [''id'' \<mapsto> Strs [''42'', ''43'']] []"
  have h1: "method_req ?req = Some ''GET''" by (simp add: request_of_def)
  have h2: "query ?req ''id'' = Some (Strs [''42'', ''43''])" by (simp add: request_of_def)
  have h3: "prismaClient demo_env
              = mem_prisma demo_engine [ann, bob, carl] [teapot, chair, lamp]"
    by (simp add: demo_env_def)
  from get_by_id_array_unhandled [OF h1 h2 h3, of None] h1 h2 h3 show ?thesis by simp
qed

lemma list_ex_uploaders:
  "list_ex (\<lambda>w. where_matches g w m) (map Uploader_id us) = (userId m \<in> set us)"
  by (induction us) auto

lemma mem_findMany_uploaders:
  "mem_findMany g db (uploader_args u) =
     Inr (filter (\<lambda>m. userId m \<in> set (uploaders_of u)) db)"
  by (simp add: mem_findMany_def uploader_args_def list_ex_uploaders)

text \<open>
  C9. On a GET request without \<open>query.id\<close> and with \<open>query.uploader\<close> present, a string
  or a list of strings, against the in-memory client over the rows \<open>db\<close>: the
  response is 200 with the shaped list of exactly the rows whose uploader id is one
  of the given values, in the order of the rows, and the only call is the many-find
  with the disjunction over these values. A single string counts as the one-element
  list.
\<close>

theorem get_by_uploader_union:
  assumes "method_req req = Some ''GET''"
    and "truthy_of (query req ''id'') = None"
    and "truthy_of (query req ''uploader'') = Some u"
    and "prismaClient env = mem_prisma g us db"
  shows "handler env ses req =
           (Responded \<lparr>status = 200,
              body = JsonModelInfos
                (map makeModelInfo (filter (\<lambda>m. userId m \<in> set (uploaders_of u)) db))\<rparr>,
            [Model_findMany (uploader_args u)])
         \<and> uploaders_of (Str s) = [s] \<and> uploaders_of (Strs ss) = ss"
  using assms
  by (simp add: handler_GET handle_GET_def get_by_uploader_def mem_prisma_def
      mem_findMany_uploaders makeModelInfos_def uploaders_of_def)

theorem get_by_uploader_union_witness:
  "method_req (request_of ''GET'' [''uploader'' \<mapsto> Strs [''u3'', ''u1'']] []) = Some ''GET''
   \<and> truthy_of (query (request_of ''GET'' [''uploader'' \<mapsto> Strs [''u3'', ''u1'']] []) ''id'') = None
   \<and> truthy_of (query (request_of ''GET'' [''uploader'' \<mapsto> Strs [''u3'', ''u1'']] []) ''uploader'')
       = Some (Strs [''u3'', ''u1''])
   \<and> fst (handler demo_env None (request_of ''GET'' [''uploader'' \<mapsto> Strs [''u3'', ''u1'']] []))
       = Responded \<lparr>status = 200,
           body = JsonModelInfos [makeModelInfo teapot, makeModelInfo lamp]\<rparr>"
proof -
  let ?req = "request_of ''GET'' [''uploader'' \<mapsto> Strs [''u3'', ''u1'']] []"
  have h1: "method_req ?req = Some ''GET''" by (simp add: request_of_def)
  have h2: "truthy_of (query ?req ''id'') = None" by (simp add: request_of_def)
  have h3: "truthy_of (query ?req ''uploader'') = Some (Strs [''u3'', ''u1''])"
    by (simp add: request_of_def)
  have h4: "prismaClient demo_env
              = mem_prisma demo_engine [ann, bob, carl] [teapot, chair, lamp]"
    by (simp add: demo_env_def)
  have "fst (handler demo_env None ?req)
       = Responded \<lparr>status = 200,
           body = JsonModelInfos [makeModelInfo teapot, makeModelInfo lamp]\<rparr>"
    using get_by_uploader_union [OF h1 h2 h3 h4, of None]
    by (simp add: teapot_def chair_def lamp_def)
  with h1 h2 h3 show ?thesis by simp
qed

text \<open>
  C5. On a GET request with \<open>query.sort\<close> present and neither \<open>query.id\<close> nor
  \<open>query.uploader\<close>, when the many-find built from the query returns the empty list,
  the response is 404 with the body \<open>{data, error}\<close>, \<open>data\<close> the empty list. The
  error message quotes the \<open>filterByName\<close> value and names the category when both
  are supplied, quotes the \<open>filterByName\<close> value when only it is supplied, names the
  category when only it is supplied, and is absent when neither is.
\<close>

theorem get_by_sort_no_match:
  assumes "method_req req = Some ''GET''"
    and "truthy_of (query req ''id'') = None"
    and "truthy_of (query req ''uploader'') = None"
    and "truthy_of (query req ''sort'') = Some sort_q"
    and "model_findMany (prismaClient env) (sort_options env req sort_q) = Inr []"
  shows "handler env ses req =
           (Responded \<lparr>status = 404, body = JsonDataError (Stored []) (no_match_message req)\<rparr>,
            [Model_findMany (sort_options env req sort_q)])
       \<and> (\<forall>f c. truthy_of (query req ''filterByName'') = Some f
              \<and> truthy_of (query req ''category'') = Some c \<longrightarrow>
            no_match_message req =
              Some (''We couldn't find any matches for \"'' @ toString f @ ''\" in '' @ toString c))
       \<and> (\<forall>f. truthy_of (query req ''filterByName'') = Some f
              \<and> truthy_of (query req ''category'') = None \<longrightarrow>
            no_match_message req =
              Some (''We couldn't find any matches for \"'' @ toString f @ ''\"''))
       \<and> (\<forall>c. truthy_of (query req ''filterByName'') = None
              \<and> truthy_of (query req ''category'') = Some c \<longrightarrow>
            no_match_message req =
              Some (''We couldn't find any matches in \"'' @ toString c @ ''\"''))
       \<and> (truthy_of (query req ''filterByName'') = None
              \<and> truthy_of (query req ''category'') = None \<longrightarrow>
            no_match_message req = None)"
  using assms
  by (simp add: handler_GET handle_GET_def get_by_sort_def no_match_message_def)

theorem get_by_sort_no_match_witness:
  "method_req (request_of ''GET'' zzz_query []) = Some ''GET''
   \<and> truthy_of (query (request_of ''GET'' zzz_query []) ''id'') = None
   \<and> truthy_of (query (request_of ''GET'' zzz_query []) ''uploader'') = None
   \<and> truthy_of (query (request_of ''GET'' zzz_query []) ''sort'') = Some (Str ''name'')
   \<and> model_findMany (prismaClient demo_env)
        (sort_options demo_env (request_of ''GET'' zzz_query []) (Str ''name'')) = Inr []
   \<and> fst (handler demo_env None (request_of ''GET'' zzz_query [])) =
       Responded \<lparr>status = 404,
         body = JsonDataError (Stored []) (Some ''We couldn't find any matches for \"zzz\"'')\<rparr>"
proof -
  let ?req = "request_of ''GET'' zzz_query []"
  have h1: "method_req ?req = Some ''GET''" by (simp add: request_of_def)
  have h2: "truthy_of (query ?req ''id'') = None"
    and h3: "truthy_of (query ?req ''uploader'') = None"
    and h4: "truthy_of (query ?req ''sort'') = Some (Str ''name'')"
    and h6: "truthy_of (query ?req ''filterByName'') = Some (Str ''zzz'')"
    and h7: "truthy_of (query ?req ''category'') = None"
    by (simp_all add: request_of_def zzz_query_def)
  have h5: "model_findMany (prismaClient demo_env) (sort_options demo_env ?req (Str ''name''))
              = Inr []"
    by (simp add: demo_env_def mem_prisma_def mem_findMany_def sort_options_def
        request_of_def zzz_query_def demo_engine_def teapot_def chair_def lamp_def)
  from get_by_sort_no_match [OF h1 h2 h3 h4 h5, of None] h6 h7
  have "fst (handler demo_env None ?req) =
       Responded \<lparr>status = 404,
         body = JsonDataError (Stored []) (Some ''We couldn't find any matches for \"zzz\"'')\<rparr>"
    by simp
  with h1 h2 h3 h4 h5 show ?thesis by simp
qed

subsection \<open>The write path\<close>

text \<open>
  C7. On a POST request the guards apply in this order. Without a session the
  response is 401 with the plain text \<open>Login first\<close> and no collaborator is called.
  With a session whose email finds no user the response is 401 with an empty body.
  With a user who is denied the action (model, create) the response is 403 with the
  JSON body \<open>{ok: false, message}\<close>. In each of the three cases the only call made, if
  any, is the user lookup: nothing is written.
\<close>

theorem post_guards:
  assumes "method_req req = Some ''POST''"
  shows "(ses = None \<longrightarrow>
            handler env ses req = (Responded \<lparr>status = 401, body = Text ''Login first''\<rparr>, []))
       \<and> (ses \<noteq> None \<and> user_findUnique (prismaClient env) (email_of_session ses) = Inr None \<longrightarrow>
            handler env ses req =
              (Responded \<lparr>status = 401, body = NoBody\<rparr>, [User_findUnique (email_of_session ses)]))
       \<and> (\<forall>u. ses \<noteq> None
              \<and> user_findUnique (prismaClient env) (email_of_session ses) = Inr (Some u)
              \<and> \<not> hasRight env (Action ''model'' ''create'') (Some u) NoTarget \<longrightarrow>
            handler env ses req =
              (Responded \<lparr>status = 403, body = JsonOkMessage False login_required_message\<rparr>,
               [User_findUnique (email_of_session ses)]))
       \<and> ((ses = None
            \<or> user_findUnique (prismaClient env) (email_of_session ses) = Inr None
            \<or> (\<exists>u. user_findUnique (prismaClient env) (email_of_session ses) = Inr (Some u)
                  \<and> \<not> hasRight env (Action ''model'' ''create'') (Some u) NoTarget)) \<longrightarrow>
            filter is_write (snd (handler env ses req)) = [])"
  using assms by (auto simp add: handler_POST handle_POST_def Let_def)

theorem post_guards_witness:
  "method_req (request_of ''POST'' Map.empty ''two files'') = Some ''POST''
   \<and> handler demo_env None (request_of ''POST'' Map.empty ''two files'')
       = (Responded \<lparr>status = 401, body = Text ''Login first''\<rparr>, [])
   \<and> handler demo_env (Some (session_of ''dora@example.org''))
         (request_of ''POST'' Map.empty ''two files'')
       = (Responded \<lparr>status = 401, body = NoBody\<rparr>, [User_findUnique (Some ''dora@example.org'')])
   \<and> handler demo_env (Some (session_of ''carl@example.org''))
         (request_of ''POST'' Map.empty ''two files'')
       = (Responded \<lparr>status = 403, body = JsonOkMessage False login_required_message\<rparr>,
          [User_findUnique (Some ''carl@example.org'')])"
proof -
  let ?req = "request_of ''POST'' Map.empty ''two files''"
  have h: "method_req ?req = Some ''POST''" by (simp add: request_of_def)
  have m1: "email_of_session (Some (session_of ''dora@example.org'')) = Some ''dora@example.org''"
    and m2: "email_of_session (Some (session_of ''carl@example.org'')) = Some ''carl@example.org''"
    by (simp_all add: email_of_session_def session_of_def)
  have u1: "user_findUnique (prismaClient demo_env) (Some ''dora@example.org'') = Inr None"
    and u2: "user_findUnique (prismaClient demo_env) (Some ''carl@example.org'') = Inr (Some carl)"
    by (simp_all add: demo_defs)
  have r: "\<not> hasRight demo_env (Action ''model'' ''create'') (Some carl) NoTarget"
    by (simp add: demo_env_def demo_hasRight_def carl_def)
  have a: "handler demo_env None ?req
             = (Responded \<lparr>status = 401, body = Text ''Login first''\<rparr>, [])"
    using post_guards [OF h, of None demo_env] by simp
  have b: "handler demo_env (Some (session_of ''dora@example.org'')) ?req
             = (Responded \<lparr>status = 401, body = NoBody\<rparr>,
                [User_findUnique (Some ''dora@example.org'')])"
    using post_guards [OF h, of "Some (session_of ''dora@example.org'')" demo_env] m1 u1
    by simp
  have c: "handler demo_env (Some (session_of ''carl@example.org'')) ?req
             = (Responded \<lparr>status = 403, body = JsonOkMessage False login_required_message\<rparr>,
                [User_findUnique (Some ''carl@example.org'')])"
    using post_guards [OF h, of "Some (session_of ''carl@example.org'')" demo_env] m2 u2 r
    by simp
  from h a b c show ?thesis by simp
qed

text \<open>
  C6. On a POST request that reaches the multipart parsing (a session, its user found
  and allowed to create), when the parse fails, whatever the error, the response
  has status 200 and the JSON body \<open>{ok: false, message}\<close> with the message about the
  model size. The calls made are the user lookup and the parse: no file is
  processed and nothing is written.
\<close>

theorem post_parse_failure:
  assumes "method_req req = Some ''POST''"
    and "ses \<noteq> None"
    and "user_findUnique (prismaClient env) (email_of_session ses) = Inr (Some u)"
    and "hasRight env (Action ''model'' ''create'') (Some u) NoTarget"
    and "formidable_parse env (effective_options (upload_options u)) (raw_body req) = Inl e"
  shows "handler env ses req =
           (Responded \<lparr>status = 200,
              body = JsonOkMessage False ''Failed to parse your request. Check your model size.''\<rparr>,
            [User_findUnique (email_of_session ses),
             Form_parse (effective_options (upload_options u))])
         \<and> filter is_write (snd (handler env ses req)) = []"
  using assms
  by (simp add: handler_POST handle_POST_def Let_def getFormidableFileFromReq_def)

theorem post_parse_failure_witness:
  "method_req (request_of ''POST'' Map.empty ''a file of 200MiB'') = Some ''POST''
   \<and> user_findUnique (prismaClient demo_env)
        (email_of_session (Some (session_of ''bob@example.org''))) = Inr (Some bob)
   \<and> hasRight demo_env (Action ''model'' ''create'') (Some bob) NoTarget
   \<and> formidable_parse demo_env (effective_options (upload_options bob))
        (raw_body (request_of ''POST'' Map.empty ''a file of 200MiB''))
       = Inl (Error ''maxFileSize exceeded'')
   \<and> fst (handler demo_env (Some (session_of ''bob@example.org''))
        (request_of ''POST'' Map.empty ''a file of 200MiB''))
       = Responded \<lparr>status = 200,
           body = JsonOkMessage False ''Failed to parse your request. Check your model size.''\<rparr>
   \<and> filter is_write (snd (handler demo_env (Some (session_of ''bob@example.org''))
        (request_of ''POST'' Map.empty ''a file of 200MiB''))) = []"
proof -
  let ?req = "request_of ''POST'' Map.empty ''a file of 200MiB''"
  let ?ses = "Some (session_of ''bob@example.org'')"
  have h1: "method_req ?req = Some ''POST''" by (simp add: request_of_def)
  have h2: "?ses \<noteq> None" by simp
  have h3: "user_findUnique (prismaClient demo_env) (email_of_session ?ses) = Inr (Some bob)"
    by (simp add: demo_defs)
  have h4: "hasRight demo_env (Action ''model'' ''create'') (Some bob) NoTarget"
    by (simp add: demo_env_def demo_hasRight_def bob_def)
  have h5: "formidable_parse demo_env (effective_options (upload_options bob)) (raw_body ?req)
              = Inl (Error ''maxFileSize exceeded'')"
    by (simp add: demo_env_def demo_parse_def request_of_def)
  from post_parse_failure [OF h1 h2 h3 h4 h5] h1 h3 h4 h5 show ?thesis by simp
qed




subsection \<open>The delete path\<close>

text \<open>
  C3. On a DELETE request that reaches the authorization check (the user lookup
  returned, a user or none; \<open>query.id\<close> gives a model id; the record lookup returned,
  a record or none), when the check denies, the response is 403 with an empty
  body. The calls made are the two lookups: neither the storage deletion nor the
  database deletion is invoked, and nothing is written.
\<close>

theorem delete_denied:
  assumes "method_req req = Some ''DELETE''"
    and "user_findUnique (prismaClient env) (email_of_session ses) = Inr usr"
    and "modelId_of req = Some modelId"
    and "model_findUnique (prismaClient env) (Str modelId) = Inr mdl"
    and "\<not> hasRight env (Action ''model'' ''delete'') usr (Target mdl)"
  shows "handler env ses req =
           (Responded \<lparr>status = 403, body = NoBody\<rparr>,
            [User_findUnique (email_of_session ses), Model_findUnique (Str modelId)])
         \<and> DeleteS3Files modelId \<notin> set (snd (handler env ses req))
         \<and> Model_delete modelId \<notin> set (snd (handler env ses req))
         \<and> filter is_write (snd (handler env ses req)) = []"
  using assms by (simp add: handler_DELETE handle_DELETE_def Let_def)

theorem delete_denied_witness:
  "method_req (request_of ''DELETE'' [''id'' \<mapsto> Str ''42''] []) = Some ''DELETE''
   \<and> user_findUnique (prismaClient demo_env)
        (email_of_session (Some (session_of ''bob@example.org''))) = Inr (Some bob)
   \<and> modelId_of (request_of ''DELETE'' [''id'' \<mapsto> Str ''42''] []) = Some ''42''
   \<and> model_findUnique (prismaClient demo_env) (Str ''42'') = Inr (Some teapot)
   \<and> \<not> hasRight demo_env (Action ''model'' ''delete'') (Some bob) (Target (Some teapot))
   \<and> handler demo_env (Some (session_of ''bob@example.org''))
        (request_of ''DELETE'' [''id'' \<mapsto> Str ''42''] [])
       = (Responded \<lparr>status = 403, body = NoBody\<rparr>,
          [User_findUnique (Some ''bob@example.org''), Model_findUnique (Str ''42'')])"
proof -
  let ?req = "request_of ''DELETE'' [''id'' \<mapsto> Str ''42''] []"
  let ?ses = "Some (session_of ''bob@example.org'')"
  have h1: "method_req ?req = Some ''DELETE''" by (simp add: request_of_def)
  have h2: "user_findUnique (prismaClient demo_env) (email_of_session ?ses) = Inr (Some bob)"
    by (simp add: demo_defs)
  have h3: "modelId_of ?req = Some ''42''" by (simp add: modelId_of_def request_of_def)
  have h4: "model_findUnique (prismaClient demo_env) (Str ''42'') = Inr (Some teapot)"
    by (simp add: demo_defs)
  have h5: "\<not> hasRight demo_env (Action ''model'' ''delete'') (Some bob) (Target (Some teapot))"
    by (simp add: demo_env_def demo_hasRight_def bob_def teapot_def)
  have m: "email_of_session ?ses = Some ''bob@example.org''"
    by (simp add: email_of_session_def session_of_def)
  from delete_denied [OF h1 h2 h3 h4 h5] m h1 h2 h3 h4 h5 show ?thesis by simp
qed

text \<open>
  C2. On a DELETE request with a model id whose authorization check succeeds, the
  handler calls the storage deletion for that id and, when this call returns, the
  database deletion for that id, in this order. The promise the storage deletion
  returns is not awaited: whether it is fulfilled or rejected later changes
  nothing. When the storage call throws or the database deletion fails the response
  is 500 with \<open>{ok: false, message}\<close>; otherwise it is 200 with \<open>{ok: true, message}\<close>
  and both deletions have been invoked.
\<close>

theorem delete_authorized:
  assumes "method_req req = Some ''DELETE''"
    and "user_findUnique (prismaClient env) (email_of_session ses) = Inr usr"
    and "modelId_of req = Some modelId"
    and "model_findUnique (prismaClient env) (Str modelId) = Inr mdl"
    and "hasRight env (Action ''model'' ''delete'') usr (Target mdl)"
  shows "(\<forall>e. deleteS3Files env modelId = Inl e \<longrightarrow>
            handler env ses req =
              (Responded \<lparr>status = 500, body = JsonOkMessage False ''Failed while deleting.''\<rparr>,
               [User_findUnique (email_of_session ses), Model_findUnique (Str modelId),
                DeleteS3Files modelId]))
       \<and> (\<forall>pending e. deleteS3Files env modelId = Inr pending
              \<and> model_delete (prismaClient env) modelId = Inl e \<longrightarrow>
            handler env ses req =
              (Responded \<lparr>status = 500, body = JsonOkMessage False ''Failed while deleting.''\<rparr>,
               [User_findUnique (email_of_session ses), Model_findUnique (Str modelId),
                DeleteS3Files modelId, Model_delete modelId]))
       \<and> (\<forall>pending. deleteS3Files env modelId = Inr pending
              \<and> model_delete (prismaClient env) modelId = Inr () \<longrightarrow>
            handler env ses req =
              (Responded \<lparr>status = 200, body = JsonOkMessage True ''delete success!''\<rparr>,
               [User_findUnique (email_of_session ses), Model_findUnique (Str modelId),
                DeleteS3Files modelId, Model_delete modelId]))"
  using assms
  by (simp add: handler_DELETE handle_DELETE_def Let_def delete_model_def delete_failed_def)

theorem delete_authorized_witness:
  "method_req (request_of ''DELETE'' [''id'' \<mapsto> Strs [''43'', ''42'']] []) = Some ''DELETE''
   \<and> user_findUnique (prismaClient demo_env)
        (email_of_session (Some (session_of ''bob@example.org''))) = Inr (Some bob)
   \<and> modelId_of (request_of ''DELETE'' [''id'' \<mapsto> Strs [''43'', ''42'']] []) = Some ''43''
   \<and> model_findUnique (prismaClient demo_env) (Str ''43'') = Inr (Some chair)
   \<and> hasRight demo_env (Action ''model'' ''delete'') (Some bob) (Target (Some chair))
   \<and> deleteS3Files demo_env ''43'' = Inr (Rejected (Error ''storage unreachable''))
   \<and> model_delete (prismaClient demo_env) ''43'' = Inr ()
   \<and> handler demo_env (Some (session_of ''bob@example.org''))
        (request_of ''DELETE'' [''id'' \<mapsto> Strs [''43'', ''42'']] [])
       = (Responded \<lparr>status = 200, body = JsonOkMessage True ''delete success!''\<rparr>,
          [User_findUnique (Some ''bob@example.org''), Model_findUnique (Str ''43''),
           DeleteS3Files ''43'', Model_delete ''43''])"
proof -
  let ?req = "request_of ''DELETE'' [''id'' \<mapsto> Strs [''43'', ''42'']] []"
  let ?ses = "Some (session_of ''bob@example.org'')"
  have h1: "method_req ?req = Some ''DELETE''" by (simp add: request_of_def)
  have h2: "user_findUnique (prismaClient demo_env) (email_of_session ?ses) = Inr (Some bob)"
    by (simp add: demo_defs)
  have h3: "modelId_of ?req = Some ''43''" by (simp add: modelId_of_def request_of_def)
  have h4: "model_findUnique (prismaClient demo_env) (Str ''43'') = Inr (Some chair)"
    by (simp add: demo_defs)
  have h5: "hasRight demo_env (Action ''model'' ''delete'') (Some bob) (Target (Some chair))"
    by (simp add: demo_env_def demo_hasRight_def bob_def chair_def)
  have h6: "deleteS3Files demo_env ''43'' = Inr (Rejected (Error ''storage unreachable''))"
    by (simp add: demo_env_def)
  have h7: "model_delete (prismaClient demo_env) ''43'' = Inr ()"
    by (simp add: demo_defs)
  have m: "email_of_session ?ses = Some ''bob@example.org''"
    by (simp add: email_of_session_def session_of_def)
  from delete_authorized [OF h1 h2 h3 h4 h5] m h1 h2 h3 h4 h5 h6 h7 show ?thesis by simp
qed

end
